theory Spec2Isabelle
  imports Main
begin

section \<open>Data model of \<^verbatim>\<open>src/frontend/src/lib/api.ts\<close>\<close>

text \<open>
  A JavaScript \<^verbatim>\<open>number\<close> that the program uses as an identifier, a page size or an
  offset is modelled as an \<open>int\<close>. A value of type \<^verbatim>\<open>Record<string, any>\<close> is an
  association list of JSON values.
\<close>

datatype json_value =
    JNull
  | JBool bool
  | JNum int
  | JStr string
  | JArr "json_value list"
  | JObj "(string \<times> json_value) list"

text \<open>
  \<^verbatim>\<open>interface Activity\<close>. The field \<^verbatim>\<open>id\<close> is named \<open>id_activity\<close>, since \<open>id\<close> is
  the identity function of HOL.
\<close>

record activity =
  id_activity :: int
  user_id :: int
  action_type :: string
  description :: "string option"
  extra_data :: "(string \<times> json_value) list option"
  created_at :: string

text \<open>\<^verbatim>\<open>interface ActivityCreateData\<close>; an optional field that is left out is \<open>None\<close>.\<close>

record activity_create_data =
  new_action_type :: string
  new_description :: "string option"
  new_extra_data :: "(string \<times> json_value) list option"

text \<open>\<^verbatim>\<open>interface ActivityStats\<close>.\<close>

record activity_stats =
  total_count :: int
  by_type :: "(string \<times> int) list"
  by_date :: "(string \<times> int) list"
  most_common_action :: "string option"

text \<open>
  What a rejected promise or a \<^verbatim>\<open>throw\<close> carries: an \<^verbatim>\<open>Error\<close> object with its
  message, or any other value.
\<close>

datatype js_thrown = JsError string | JsOther

section \<open>The hook \<^verbatim>\<open>useDashboard\<close> (\<^verbatim>\<open>src/frontend/src/hooks/useDashboard.ts\<close>)\<close>

text \<open>
  The three pieces of React state. \<^verbatim>\<open>StatsState\<close> has the same field names as
  \<^verbatim>\<open>ActivitiesState\<close>; its fields carry the prefix \<open>stats_\<close> here.
\<close>

record activities_state =
  data :: "activity list"
  loading :: bool
  error :: "string option"

record stats_state =
  stats_data :: "activity_stats option"
  stats_loading :: bool
  stats_error :: "string option"

record pagination_state =
  limit :: int
  offset :: int
  hasMore :: bool

text \<open>
  The calls the hook makes to the functions it imports from \<^verbatim>\<open>@/lib/api\<close>, with their
  arguments. The hook always passes both arguments to \<^verbatim>\<open>getActivities\<close>.
\<close>

datatype api_call =
    CallGetActivities int int
  | CallGetActivityStats "string option" "string option"
  | CallCreateActivity activity_create_data
  | CallDeleteActivity int

text \<open>
  The state of one mounted hook: the three \<^verbatim>\<open>useState\<close> cells, and the trace of API
  calls issued so far (the hook's only effect on the outside).
\<close>

record dashboard =
  activitiesState :: activities_state
  statsState :: stats_state
  pagination :: pagination_state
  calls :: "api_call list"

definition DEFAULT_LIMIT :: int where
  "DEFAULT_LIMIT = 10"

text \<open>The initial values given to \<^verbatim>\<open>useState\<close>; nothing has been called yet.\<close>

definition initial_dashboard :: dashboard where
  "initial_dashboard =
     \<lparr>activitiesState = \<lparr>data = [], loading = True, error = None\<rparr>,
      statsState = \<lparr>stats_data = None, stats_loading = True, stats_error = None\<rparr>,
      pagination = \<lparr>limit = DEFAULT_LIMIT, offset = 0, hasMore = True\<rparr>,
      calls = []\<rparr>"

text \<open>\<^verbatim>\<open>err instanceof Error ? err.message : fallback\<close>\<close>

definition error_message :: "js_thrown \<Rightarrow> string \<Rightarrow> string" where
  "error_message err fallback = (case err of JsError m \<Rightarrow> m | JsOther \<Rightarrow> fallback)"

subsection \<open>\<^verbatim>\<open>fetchActivities\<close>\<close>

text \<open>
  An \<^verbatim>\<open>async\<close> function runs up to its \<^verbatim>\<open>await\<close> when it is called, and the rest
  when the awaited promise settles. Each operation of the hook is therefore two
  transitions: \<open>_start\<close>, the part before the \<^verbatim>\<open>await\<close>, which issues the API call, and
  \<open>_settle\<close>, the part after it, which takes the outcome of the call (\<open>Inr\<close> the value
  the promise resolved to, \<open>Inl\<close> what it rejected with). The state updates are
  functional (\<^verbatim>\<open>prev => ...\<close>), so \<open>_settle\<close> reads the state as it is when the promise
  settles. The operation without anything happening in between is the composition.
  \<^verbatim>\<open>refreshData\<close> reads \<^verbatim>\<open>pagination.limit\<close> directly; the limit changes only when
  a fetch settles, and the callback is the one of the render after that, so it reads
  the current limit.
\<close>

definition fetchActivities_start :: "int \<Rightarrow> int \<Rightarrow> dashboard \<Rightarrow> dashboard" where
  "fetchActivities_start lim off s =
     s\<lparr>activitiesState := (activitiesState s)\<lparr>loading := True, error := None\<rparr>,
       calls := calls s @ [CallGetActivities lim off]\<rparr>"

definition fetchActivities_settle ::
  "int \<Rightarrow> int \<Rightarrow> js_thrown + activity list \<Rightarrow> dashboard \<Rightarrow> dashboard" where
  "fetchActivities_settle lim off res s =
     (case res of
        Inr page \<Rightarrow>
          s\<lparr>activitiesState :=
              \<lparr>data = (if off = 0 then page else data (activitiesState s) @ page),
               loading = False,
               error = None\<rparr>,
            pagination :=
              \<lparr>limit = lim, offset = off, hasMore = (int (length page) = lim)\<rparr>\<rparr>
      | Inl err \<Rightarrow>
          s\<lparr>activitiesState := (activitiesState s)
              \<lparr>loading := False,
               error := Some (error_message err
                  ''Failed to fetch activities. Please try again.'')\<rparr>\<rparr>)"

text \<open>
  The parameter list \<^verbatim>\<open>(limit: number = DEFAULT_LIMIT, offset: number = 0)\<close>: an
  argument that is left out is \<open>None\<close> and takes its default.
\<close>

definition fetchActivities_params :: "int option \<Rightarrow> int option \<Rightarrow> int \<times> int" where
  "fetchActivities_params lim_arg off_arg =
     (case lim_arg of None \<Rightarrow> DEFAULT_LIMIT | Some l \<Rightarrow> l,
      case off_arg of None \<Rightarrow> 0 | Some off' \<Rightarrow> off')"

definition fetchActivities ::
  "int option \<Rightarrow> int option \<Rightarrow> js_thrown + activity list \<Rightarrow> dashboard \<Rightarrow> dashboard" where
  "fetchActivities lim_arg off_arg res s =
     (case fetchActivities_params lim_arg off_arg of
        (lim, off) \<Rightarrow> fetchActivities_settle lim off res (fetchActivities_start lim off s))"

subsection \<open>\<^verbatim>\<open>fetchStats\<close>\<close>

definition fetchStats_start :: "string option \<Rightarrow> string option \<Rightarrow> dashboard \<Rightarrow> dashboard" where
  "fetchStats_start startDate endDate s =
     s\<lparr>statsState := (statsState s)\<lparr>stats_loading := True, stats_error := None\<rparr>,
       calls := calls s @ [CallGetActivityStats startDate endDate]\<rparr>"

definition fetchStats_settle :: "js_thrown + activity_stats \<Rightarrow> dashboard \<Rightarrow> dashboard" where
  "fetchStats_settle res s =
     (case res of
        Inr st \<Rightarrow>
          s\<lparr>statsState := \<lparr>stats_data = Some st, stats_loading = False, stats_error = None\<rparr>\<rparr>
      | Inl err \<Rightarrow>
          s\<lparr>statsState := (statsState s)
              \<lparr>stats_loading := False,
               stats_error := Some (error_message err
                  ''Failed to fetch statistics. Please try again.'')\<rparr>\<rparr>)"

definition fetchStats ::
  "string option \<Rightarrow> string option \<Rightarrow> js_thrown + activity_stats \<Rightarrow> dashboard \<Rightarrow> dashboard" where
  "fetchStats startDate endDate res s =
     fetchStats_settle res (fetchStats_start startDate endDate s)"

subsection \<open>\<^verbatim>\<open>createActivity\<close> and \<^verbatim>\<open>deleteActivity\<close>\<close>

text \<open>
  Both return a value besides changing the state: \<^verbatim>\<open>Activity | null\<close> is an
  \<open>activity option\<close>. The call \<^verbatim>\<open>fetchStats()\<close> on the success path is not awaited:
  the mutation starts it, and it settles on its own later (\<open>fetchStats_settle\<close>).
\<close>

definition createActivity_start :: "activity_create_data \<Rightarrow> dashboard \<Rightarrow> dashboard" where
  "createActivity_start d s = s\<lparr>calls := calls s @ [CallCreateActivity d]\<rparr>"

definition createActivity_settle ::
  "js_thrown + activity \<Rightarrow> dashboard \<Rightarrow> activity option \<times> dashboard" where
  "createActivity_settle res s =
     (case res of
        Inr newActivity \<Rightarrow>
          (Some newActivity,
           fetchStats_start None None
             (s\<lparr>activitiesState := (activitiesState s)
                  \<lparr>data := newActivity # data (activitiesState s)\<rparr>\<rparr>))
      | Inl err \<Rightarrow>
          (None,
           s\<lparr>activitiesState := (activitiesState s)
               \<lparr>error := Some (error_message err
                  ''Failed to create activity. Please try again.'')\<rparr>\<rparr>))"

definition createActivity ::
  "activity_create_data \<Rightarrow> js_thrown + activity \<Rightarrow> dashboard \<Rightarrow> activity option \<times> dashboard" where
  "createActivity d res s = createActivity_settle res (createActivity_start d s)"

definition deleteActivity_start :: "int \<Rightarrow> dashboard \<Rightarrow> dashboard" where
  "deleteActivity_start i s = s\<lparr>calls := calls s @ [CallDeleteActivity i]\<rparr>"

definition deleteActivity_settle ::
  "int \<Rightarrow> js_thrown + unit \<Rightarrow> dashboard \<Rightarrow> bool \<times> dashboard" where
  "deleteActivity_settle i res s =
     (case res of
        Inr _ \<Rightarrow>
          (True,
           fetchStats_start None None
             (s\<lparr>activitiesState := (activitiesState s)
                  \<lparr>data := filter (\<lambda>a. id_activity a \<noteq> i) (data (activitiesState s))\<rparr>\<rparr>))
      | Inl err \<Rightarrow>
          (False,
           s\<lparr>activitiesState := (activitiesState s)
               \<lparr>error := Some (error_message err
                  ''Failed to delete activity. Please try again.'')\<rparr>\<rparr>))"

definition deleteActivity ::
  "int \<Rightarrow> js_thrown + unit \<Rightarrow> dashboard \<Rightarrow> bool \<times> dashboard" where
  "deleteActivity i res s = deleteActivity_settle i res (deleteActivity_start i s)"

subsection \<open>\<^verbatim>\<open>refreshData\<close>, \<^verbatim>\<open>loadMore\<close> and the effect on mount\<close>

text \<open>
  \<^verbatim>\<open>refreshData\<close> calls \<^verbatim>\<open>fetchActivities\<close> and then \<^verbatim>\<open>fetchStats\<close> to build the
  array given to \<^verbatim>\<open>Promise.all\<close>: both run up to their \<^verbatim>\<open>await\<close> before anything
  settles. \<open>refreshData_start\<close> is that part; the two promises then settle in either
  order, which \<open>refreshData\<close> and \<open>refreshData_stats_first\<close> spell out.
\<close>

definition refreshData_start :: "dashboard \<Rightarrow> dashboard" where
  "refreshData_start s =
     fetchStats_start None None
       (fetchActivities_start (limit (pagination s)) 0
          (s\<lparr>pagination := (pagination s)\<lparr>offset := 0\<rparr>\<rparr>))"

definition refreshData ::
  "js_thrown + activity list \<Rightarrow> js_thrown + activity_stats \<Rightarrow> dashboard \<Rightarrow> dashboard" where
  "refreshData resA resS s =
     fetchStats_settle resS
       (fetchActivities_settle (limit (pagination s)) 0 resA (refreshData_start s))"

definition refreshData_stats_first ::
  "js_thrown + activity list \<Rightarrow> js_thrown + activity_stats \<Rightarrow> dashboard \<Rightarrow> dashboard" where
  "refreshData_stats_first resA resS s =
     fetchActivities_settle (limit (pagination s)) 0 resA
       (fetchStats_settle resS (refreshData_start s))"

text \<open>
  \<^verbatim>\<open>loadMore\<close> reads \<^verbatim>\<open>pagination\<close> and \<^verbatim>\<open>activitiesState.loading\<close> directly: the
  callback holds the values of the render that created it (\<^verbatim>\<open>useCallback\<close> with these
  dependencies), while the updates it makes go to the current state. The first argument
  \<open>r\<close> is the state that this render saw, the last is the current state. The callback
  returns at once when its guard holds of \<open>r\<close>; otherwise it is
  \<^verbatim>\<open>fetchActivities(pagination.limit, newOffset)\<close> with the values of \<open>r\<close>.
\<close>

definition loadMore_start :: "dashboard \<Rightarrow> dashboard \<Rightarrow> dashboard" where
  "loadMore_start r s =
     (if \<not> hasMore (pagination r) \<or> loading (activitiesState r) then s
      else fetchActivities_start (limit (pagination r))
             (offset (pagination r) + limit (pagination r)) s)"

definition loadMore :: "dashboard \<Rightarrow> js_thrown + activity list \<Rightarrow> dashboard \<Rightarrow> dashboard" where
  "loadMore r res s =
     (if \<not> hasMore (pagination r) \<or> loading (activitiesState r) then s
      else (let newOffset = offset (pagination r) + limit (pagination r)
            in fetchActivities (Some (limit (pagination r))) (Some newOffset) res s))"

text \<open>
  The effect that runs on mount, \<^verbatim>\<open>fetchActivities(); fetchStats();\<close>, starts both
  fetches on the initial state, with every argument left out; \<open>mount\<close> is the state
  once both have settled.
\<close>

definition mount_start :: dashboard where
  "mount_start =
     (case fetchActivities_params None None of
        (lim, off) \<Rightarrow>
          fetchStats_start None None (fetchActivities_start lim off initial_dashboard))"

definition mount :: "js_thrown + activity list \<Rightarrow> js_thrown + activity_stats \<Rightarrow> dashboard" where
  "mount resA resS =
     (case fetchActivities_params None None of
        (lim, off) \<Rightarrow> fetchStats_settle resS (fetchActivities_settle lim off resA mount_start))"

section \<open>The API functions of \<^verbatim>\<open>src/frontend/src/lib/api.ts\<close>\<close>

text \<open>
  What the API functions read and write in the browser: \<^verbatim>\<open>localStorage\<close>,
  \<^verbatim>\<open>window.location.href\<close>, and the requests handed to \<^verbatim>\<open>fetch\<close>. A request is kept
  in parts: the path, and the parameters given to \<^verbatim>\<open>URLSearchParams\<close> (an empty list
  when the URL has no query string).
\<close>

record http_request =
  http_method :: string
  path :: string
  query :: "(string \<times> string) list"
  headers :: "(string \<times> string) list"
  body :: "activity_create_data option"

record browser =
  localStorage :: "string \<rightharpoonup> string"
  href :: string
  requests :: "http_request list"

text \<open>
  A \<^verbatim>\<open>Response\<close>: \<open>json\<close> is what \<^verbatim>\<open>response.json()\<close> settles to. TypeScript does not
  check the parsed body, so it is read both as an error object (its \<^verbatim>\<open>detail\<close>, when it
  has one) and as the \<^verbatim>\<open>T\<close> the caller asked for.
\<close>

record 'a parsed_body =
  detail :: "string option"
  payload :: 'a

record 'a response =
  status :: nat
  ok :: bool
  json :: "js_thrown + 'a parsed_body"

definition DASHBOARD_API_URL :: string where
  "DASHBOARD_API_URL = ''/api/dashboard''"

text \<open>
  \<^verbatim>\<open>Number.prototype.toString\<close> on an integer: the decimal digits, most significant
  first, after a minus sign when the number is negative. \<open>decimal\<close> puts the digits of
  a natural number in front of those already produced. This is what JavaScript prints
  for an integer of magnitude below \<open>10\<^sup>2\<^sup>1\<close>; from there on it prints exponent
  notation, which is not modelled, and nothing below relies on \<open>number_toString\<close>
  at such a value.
\<close>

definition digit_char :: "nat \<Rightarrow> char" where
  "digit_char k = ''0123456789'' ! k"

fun decimal :: "nat \<Rightarrow> string \<Rightarrow> string" where
  "decimal n ds =
     (if n < 10 then digit_char n # ds
      else decimal (n div 10) (digit_char (n mod 10) # ds))"

definition number_toString :: "int \<Rightarrow> string" where
  "number_toString i =
     (if 0 \<le> i then decimal (nat i) [] else CHR ''-'' # decimal (nat (- i)) [])"

text \<open>\<^verbatim>\<open>getAuthToken\<close>: \<^verbatim>\<open>!token\<close> holds of \<^verbatim>\<open>null\<close> and of the empty string.\<close>

definition getAuthToken :: "browser \<Rightarrow> js_thrown + string" where
  "getAuthToken b =
     (case localStorage b ''token'' of
        None \<Rightarrow> Inl (JsError ''Authentication required. Please log in.'')
      | Some token \<Rightarrow>
          if token = [] then Inl (JsError ''Authentication required. Please log in.'')
          else Inr token)"

text \<open>
  \<^verbatim>\<open>handleAuthenticatedResponse\<close>. The result \<open>Inr None\<close> is \<^verbatim>\<open>undefined as T\<close>.
  \<^verbatim>\<open>error.detail || ...\<close> takes the fallback when the detail is missing or empty.
\<close>

definition handleAuthenticatedResponse ::
  "'a response \<Rightarrow> browser \<Rightarrow> (js_thrown + 'a option) \<times> browser" where
  "handleAuthenticatedResponse r b =
     (if status r = 401 then
        (Inl (JsError ''Session expired. Please log in again.''),
         b\<lparr>localStorage := (localStorage b)(''token'' := None), href := ''/login''\<rparr>)
      else if \<not> ok r then
        (let d = (case json r of Inl _ \<Rightarrow> Some ''Unknown error'' | Inr e \<Rightarrow> detail e);
             fallback = ''Request failed with status '' @ decimal (status r) []
         in (Inl (JsError (case d of None \<Rightarrow> fallback
                           | Some m \<Rightarrow> if m = [] then fallback else m)), b))
      else if status r = 204 then (Inr None, b)
      else (case json r of
              Inl e \<Rightarrow> (Inl e, b)
            | Inr v \<Rightarrow> (Inr (Some (payload v)), b)))"

text \<open>
  The five authenticated functions. \<open>fetch\<close> is the browser's \<^verbatim>\<open>fetch\<close>: what the
  network answers to a request, \<open>Inl\<close> when the promise rejects. Each function reads
  the token first, so without a token no request is made.
\<close>

definition apiCreateActivity ::
  "(http_request \<Rightarrow> js_thrown + activity response) \<Rightarrow> activity_create_data \<Rightarrow> browser
     \<Rightarrow> (js_thrown + activity option) \<times> browser" where
  "apiCreateActivity fetch d b =
     (case getAuthToken b of
        Inl e \<Rightarrow> (Inl e, b)
      | Inr token \<Rightarrow>
          (let req = \<lparr>http_method = ''POST'',
                      path = DASHBOARD_API_URL @ ''/activities'',
                      query = [],
                      headers = [(''Content-Type'', ''application/json''),
                                 (''Authorization'', ''Bearer '' @ token)],
                      body = Some d\<rparr>;
               b' = b\<lparr>requests := requests b @ [req]\<rparr>
           in case fetch req of
                Inl e \<Rightarrow> (Inl e, b')
              | Inr r \<Rightarrow> handleAuthenticatedResponse r b'))"

definition getActivities ::
  "(http_request \<Rightarrow> js_thrown + activity list response) \<Rightarrow> int option \<Rightarrow> int option \<Rightarrow> browser
     \<Rightarrow> (js_thrown + activity list option) \<times> browser" where
  "getActivities fetch lim_arg off_arg b =
     (let lim = (case lim_arg of None \<Rightarrow> 50 | Some l \<Rightarrow> l);
          off = (case off_arg of None \<Rightarrow> 0 | Some off' \<Rightarrow> off')
      in case getAuthToken b of
           Inl e \<Rightarrow> (Inl e, b)
         | Inr token \<Rightarrow>
             (let params = [(''limit'', number_toString lim), (''offset'', number_toString off)];
                  req = \<lparr>http_method = ''GET'',
                         path = DASHBOARD_API_URL @ ''/activities'',
                         query = params,
                         headers = [(''Authorization'', ''Bearer '' @ token)],
                         body = None\<rparr>;
                  b' = b\<lparr>requests := requests b @ [req]\<rparr>
              in case fetch req of
                   Inl e \<Rightarrow> (Inl e, b')
                 | Inr r \<Rightarrow> handleAuthenticatedResponse r b'))"

definition getActivity ::
  "(http_request \<Rightarrow> js_thrown + activity response) \<Rightarrow> int \<Rightarrow> browser
     \<Rightarrow> (js_thrown + activity option) \<times> browser" where
  "getActivity fetch i b =
     (case getAuthToken b of
        Inl e \<Rightarrow> (Inl e, b)
      | Inr token \<Rightarrow>
          (let req = \<lparr>http_method = ''GET'',
                      path = DASHBOARD_API_URL @ ''/activities/'' @ number_toString i,
                      query = [],
                      headers = [(''Authorization'', ''Bearer '' @ token)],
                      body = None\<rparr>;
               b' = b\<lparr>requests := requests b @ [req]\<rparr>
           in case fetch req of
                Inl e \<Rightarrow> (Inl e, b')
              | Inr r \<Rightarrow> handleAuthenticatedResponse r b'))"

text \<open>\<^verbatim>\<open>if (startDate)\<close> holds of a string that is given and not empty.\<close>

definition getActivityStats ::
  "(http_request \<Rightarrow> js_thrown + activity_stats response) \<Rightarrow> string option \<Rightarrow> string option
     \<Rightarrow> browser \<Rightarrow> (js_thrown + activity_stats option) \<times> browser" where
  "getActivityStats fetch startDate endDate b =
     (case getAuthToken b of
        Inl e \<Rightarrow> (Inl e, b)
      | Inr token \<Rightarrow>
          (let params =
                 (case startDate of None \<Rightarrow> []
                  | Some sd \<Rightarrow> if sd = [] then [] else [(''start_date'', sd)])
                 @ (case endDate of None \<Rightarrow> []
                    | Some ed \<Rightarrow> if ed = [] then [] else [(''end_date'', ed)]);
               req = \<lparr>http_method = ''GET'',
                      path = DASHBOARD_API_URL @ ''/stats'',
                      query = params,
                      headers = [(''Authorization'', ''Bearer '' @ token)],
                      body = None\<rparr>;
               b' = b\<lparr>requests := requests b @ [req]\<rparr>
           in case fetch req of
                Inl e \<Rightarrow> (Inl e, b')
              | Inr r \<Rightarrow> handleAuthenticatedResponse r b'))"

definition apiDeleteActivity ::
  "(http_request \<Rightarrow> js_thrown + unit response) \<Rightarrow> int \<Rightarrow> browser
     \<Rightarrow> (js_thrown + unit option) \<times> browser" where
  "apiDeleteActivity fetch i b =
     (case getAuthToken b of
        Inl e \<Rightarrow> (Inl e, b)
      | Inr token \<Rightarrow>
          (let req = \<lparr>http_method = ''DELETE'',
                      path = DASHBOARD_API_URL @ ''/activities/'' @ number_toString i,
                      query = [],
                      headers = [(''Authorization'', ''Bearer '' @ token)],
                      body = None\<rparr>;
               b' = b\<lparr>requests := requests b @ [req]\<rparr>
           in case fetch req of
                Inl e \<Rightarrow> (Inl e, b')
              | Inr r \<Rightarrow> handleAuthenticatedResponse r b'))"

section \<open>Sample values\<close>

text \<open>Concrete records, states and responses at which the properties below are run.\<close>

definition sample_activity :: "int \<Rightarrow> activity" where
  "sample_activity i =
     \<lparr>id_activity = i, user_id = 1, action_type = ''login'', description = None,
      extra_data = None, created_at = ''2024-01-15T10:30:00''\<rparr>"

definition sample_create_data :: activity_create_data where
  "sample_create_data =
     \<lparr>new_action_type = ''login'', new_description = None, new_extra_data = None\<rparr>"

text \<open>A full page at the default limit: the records 1 to 10.\<close>

definition full_page :: "activity list" where
  "full_page = map sample_activity [1, 2, 3, 4, 5, 6, 7, 8, 9, 10]"

text \<open>
  The hook on the dashboard page when Refresh has been clicked while the fetch of the
  mount effect was pending, and one of the two \<^verbatim>\<open>getActivities(10, 0)\<close> calls has since
  resolved with a full page: the other call is still pending.
\<close>

definition overlapping_dashboard :: dashboard where
  "overlapping_dashboard =
     fetchActivities_settle 10 0 (Inr full_page) (refreshData_start mount_start)"

text \<open>The hook when the fetch of the mount effect has resolved with a full page.\<close>

definition first_page_dashboard :: dashboard where
  "first_page_dashboard = fetchActivities None None (Inr full_page) initial_dashboard"

definition sample_browser :: browser where
  "sample_browser =
     \<lparr>localStorage = [''token'' \<mapsto> ''abc''], href = ''/dashboard'', requests = []\<rparr>"

definition unauthorized :: "'a response" where
  "unauthorized = \<lparr>status = 401, ok = False, json = Inl JsOther\<rparr>"

section \<open>Properties\<close>

subsection \<open>Pagination\<close>

text \<open>
  C1: after an activities fetch has resolved with a page, \<open>hasMore\<close> is true if and only
  if the number of records of that page equals the limit that was requested (the default
  limit when none was given), whatever the state was when the page arrived; so a page
  shorter than the limit makes \<open>hasMore\<close> false.
\<close>

theorem fetchActivities_hasMore:
  "hasMore (pagination (fetchActivities_settle lim off (Inr page) s))
     = (int (length page) = lim)
   \<and> hasMore (pagination (fetchActivities (Some lim) off_arg (Inr page) s))
     = (int (length page) = lim)
   \<and> hasMore (pagination (fetchActivities None off_arg (Inr page) s))
     = (int (length page) = DEFAULT_LIMIT)
   \<and> (int (length page) < lim \<longrightarrow>
        \<not> hasMore (pagination (fetchActivities (Some lim) off_arg (Inr page) s)))"
  by (simp add: fetchActivities_def fetchActivities_params_def fetchActivities_settle_def Let_def)

text \<open>
  With limit 2, a page of one record at offset 2 leaves \<open>hasMore\<close> false, and a page of
  two records at offset 0 leaves it true.
\<close>

theorem fetchActivities_hasMore_witness:
  "int (length [sample_activity 3]) < 2
   \<and> \<not> hasMore (pagination
         (fetchActivities (Some 2) (Some 2) (Inr [sample_activity 3]) initial_dashboard))
   \<and> hasMore (pagination
         (fetchActivities (Some 2) None (Inr [sample_activity 1, sample_activity 2])
            initial_dashboard))"
  using fetchActivities_hasMore [where lim = 2 and page = "[sample_activity 3]"
      and off_arg = "Some 2" and s = initial_dashboard]
    fetchActivities_hasMore [where lim = 2 and page = "[sample_activity 1, sample_activity 2]"
      and off_arg = None and s = initial_dashboard]
  by simp

text \<open>
  C3: when an activities fetch resolves with a page, a requested offset of 0 makes the
  page the whole accumulated list, and any other offset puts the page after the list as
  it was, whose elements stay in front in their order. The offset is 0 also when the
  caller gave none.
\<close>

theorem fetchActivities_replaces_or_appends:
  "(off = 0 \<longrightarrow>
      data (activitiesState (fetchActivities_settle lim off (Inr page) s)) = page
    \<and> data (activitiesState (fetchActivities lim_arg (Some off) (Inr page) s)) = page)
   \<and> data (activitiesState (fetchActivities lim_arg None (Inr page) s)) = page
   \<and> (off \<noteq> 0 \<longrightarrow>
        data (activitiesState (fetchActivities_settle lim off (Inr page) s))
          = data (activitiesState s) @ page
      \<and> data (activitiesState (fetchActivities lim_arg (Some off) (Inr page) s))
          = data (activitiesState s) @ page
      \<and> take (length (data (activitiesState s)))
            (data (activitiesState (fetchActivities lim_arg (Some off) (Inr page) s)))
          = data (activitiesState s))"
  by (simp add: fetchActivities_def fetchActivities_params_def fetchActivities_settle_def fetchActivities_start_def Let_def)

text \<open>
  After the first page [1, 2] has been loaded with limit 2, the page [3] at offset 2 gives
  the list [1, 2, 3], and the page [4] at offset 0 gives the list [4].
\<close>

theorem fetchActivities_replaces_or_appends_witness:
  "(2::int) \<noteq> 0
   \<and> data (activitiesState
        (fetchActivities (Some 2) (Some 2) (Inr [sample_activity 3])
           (fetchActivities (Some 2) None (Inr [sample_activity 1, sample_activity 2])
              initial_dashboard)))
      = [sample_activity 1, sample_activity 2, sample_activity 3]
   \<and> data (activitiesState
        (fetchActivities (Some 2) (Some 0) (Inr [sample_activity 4])
           (fetchActivities (Some 2) None (Inr [sample_activity 1, sample_activity 2])
              initial_dashboard)))
      = [sample_activity 4]"
  using fetchActivities_replaces_or_appends [where off = 2 and lim_arg = "Some 2"
      and page = "[sample_activity 3]"
      and s = "fetchActivities (Some 2) None (Inr [sample_activity 1, sample_activity 2])
                 initial_dashboard"]
    fetchActivities_replaces_or_appends [where off = 0 and lim_arg = "Some 2"
      and page = "[sample_activity 4]"
      and s = "fetchActivities (Some 2) None (Inr [sample_activity 1, sample_activity 2])
                 initial_dashboard"]
    fetchActivities_replaces_or_appends [where lim_arg = "Some 2"
      and page = "[sample_activity 1, sample_activity 2]" and s = initial_dashboard]
  by simp

text \<open>
  C9: an activities fetch that fails leaves the accumulated list and the pagination
  state \<open>limit\<close>, \<open>offset\<close>, \<open>hasMore\<close> as they were before the fetch; the loading flag is
  false afterwards and the error message is set. The statistics are not touched either.
  The same holds of the part that runs when the promise rejects, on the state it
  finds then.
\<close>

theorem fetchActivities_failure_frame:
  "data (activitiesState (fetchActivities lim_arg off_arg (Inl err) s))
     = data (activitiesState s)
   \<and> pagination (fetchActivities lim_arg off_arg (Inl err) s) = pagination s
   \<and> statsState (fetchActivities lim_arg off_arg (Inl err) s) = statsState s
   \<and> loading (activitiesState (fetchActivities lim_arg off_arg (Inl err) s)) = False
   \<and> error (activitiesState (fetchActivities lim_arg off_arg (Inl err) s))
       = Some (error_message err ''Failed to fetch activities. Please try again.'')
   \<and> fetchActivities_settle lim off (Inl err) s
       = s\<lparr>activitiesState :=
             \<lparr>data = data (activitiesState s), loading = False,
              error = Some (error_message err
                 ''Failed to fetch activities. Please try again.'')\<rparr>\<rparr>"
  by (simp add: fetchActivities_def fetchActivities_params_def fetchActivities_settle_def fetchActivities_start_def Let_def)

text \<open>
  With the first page [1, 2] loaded at limit 2, a fetch at offset
  2 that fails leaves the list and the pagination alone and reports the message.
\<close>

theorem fetchActivities_failure_frame_witness:
  "data (activitiesState
      (fetchActivities (Some 2) (Some 2) (Inl (JsError ''Network down''))
         (fetchActivities (Some 2) None (Inr [sample_activity 1, sample_activity 2])
            initial_dashboard)))
     = [sample_activity 1, sample_activity 2]
   \<and> pagination
      (fetchActivities (Some 2) (Some 2) (Inl (JsError ''Network down''))
         (fetchActivities (Some 2) None (Inr [sample_activity 1, sample_activity 2])
            initial_dashboard))
     = \<lparr>limit = 2, offset = 0, hasMore = True\<rparr>
   \<and> error (activitiesState
      (fetchActivities (Some 2) (Some 2) (Inl (JsError ''Network down''))
         (fetchActivities (Some 2) None (Inr [sample_activity 1, sample_activity 2])
            initial_dashboard)))
     = Some ''Network down''"
proof -
  let ?s1 = "fetchActivities (Some 2) None (Inr [sample_activity 1, sample_activity 2])
               initial_dashboard"
  have s1: "pagination ?s1 = \<lparr>limit = 2, offset = 0, hasMore = True\<rparr>"
    "data (activitiesState ?s1) = [sample_activity 1, sample_activity 2]"
    by (simp_all add: fetchActivities_def fetchActivities_params_def fetchActivities_settle_def fetchActivities_start_def
        initial_dashboard_def Let_def)
  show ?thesis
    using s1 fetchActivities_failure_frame [where s = ?s1 and lim_arg = "Some 2"
        and off_arg = "Some 2" and err = "JsError ''Network down''"]
    by (simp add: error_message_def)
qed

text \<open>
  What the guard of \<open>loadMore\<close> achieves: when the render that created the callback saw
  \<open>hasMore\<close> false or the loading flag set, the callback issues no call and changes no
  state; in particular it does nothing once a render has seen the start of a fetch.
  Otherwise it issues one call, for the limit and for the offset plus the limit that the
  render saw.
\<close>

lemma loadMore_render_guard:
  "(\<not> hasMore (pagination r) \<or> loading (activitiesState r) \<longrightarrow>
      loadMore_start r s = s \<and> loadMore r res s = s)
   \<and> loadMore_start (fetchActivities_start lim off s) (fetchActivities_start lim off s)
       = fetchActivities_start lim off s
   \<and> (hasMore (pagination r) \<and> \<not> loading (activitiesState r) \<longrightarrow>
        calls (loadMore_start r s)
          = calls s @ [CallGetActivities (limit (pagination r))
                         (offset (pagination r) + limit (pagination r))])"
  by (simp add: loadMore_def loadMore_start_def fetchActivities_start_def)

text \<open>
  C2: \<open>loadMore\<close> is to do nothing while an activities fetch is in flight. The guard
  tests the loading flag, and only as the render captured it, which misses two cases.
  First, on the dashboard page: Refresh is clicked while the fetch of the mount effect is
  pending, so that two \<^verbatim>\<open>getActivities(10, 0)\<close> calls have been issued; one of them
  resolves with a full page, which clears the loading flag and sets \<open>hasMore\<close>. The
  other call is still in flight, and \<open>loadMore\<close>, from the render of this state, issues
  \<^verbatim>\<open>getActivities(10, 10)\<close> and sets the loading flag. Second, with the first page loaded
  and nothing in flight, the same callback called twice before a render issues
  \<^verbatim>\<open>getActivities(10, 10)\<close> twice: the second time the fetch of the first is in flight
  and the loading flag is set in the current state, but not in the render the callback
  holds.
\<close>

theorem loadMore_during_pending_fetch:
  "calls overlapping_dashboard
     = [CallGetActivities 10 0, CallGetActivityStats None None,
        CallGetActivities 10 0, CallGetActivityStats None None]
   \<and> hasMore (pagination overlapping_dashboard)
   \<and> \<not> loading (activitiesState overlapping_dashboard)
   \<and> loadMore_start overlapping_dashboard overlapping_dashboard \<noteq> overlapping_dashboard
   \<and> calls (loadMore_start overlapping_dashboard overlapping_dashboard)
       = calls overlapping_dashboard @ [CallGetActivities 10 10]
   \<and> loading (activitiesState (loadMore_start overlapping_dashboard overlapping_dashboard))
   \<and> calls first_page_dashboard = [CallGetActivities 10 0]
   \<and> loading (activitiesState (loadMore_start first_page_dashboard first_page_dashboard))
   \<and> calls (loadMore_start first_page_dashboard
               (loadMore_start first_page_dashboard first_page_dashboard))
       = [CallGetActivities 10 0, CallGetActivities 10 10, CallGetActivities 10 10]"
proof -
  have o: "calls overlapping_dashboard
       = [CallGetActivities 10 0, CallGetActivityStats None None,
          CallGetActivities 10 0, CallGetActivityStats None None]"
    "pagination overlapping_dashboard = \<lparr>limit = 10, offset = 0, hasMore = True\<rparr>"
    "\<not> loading (activitiesState overlapping_dashboard)"
    by (simp_all add: overlapping_dashboard_def full_page_def refreshData_start_def
        mount_start_def fetchActivities_params_def fetchActivities_start_def
        fetchActivities_settle_def fetchStats_start_def initial_dashboard_def
        DEFAULT_LIMIT_def)
  have f: "calls first_page_dashboard = [CallGetActivities 10 0]"
    "pagination first_page_dashboard = \<lparr>limit = 10, offset = 0, hasMore = True\<rparr>"
    "\<not> loading (activitiesState first_page_dashboard)"
    by (simp_all add: first_page_dashboard_def full_page_def fetchActivities_def
        fetchActivities_params_def fetchActivities_start_def fetchActivities_settle_def
        initial_dashboard_def DEFAULT_LIMIT_def)
  have o1: "loadMore_start overlapping_dashboard overlapping_dashboard
       = fetchActivities_start 10 10 overlapping_dashboard"
    using o by (simp add: loadMore_start_def)
  have f1: "loadMore_start first_page_dashboard s = fetchActivities_start 10 10 s" for s
    using f by (simp add: loadMore_start_def)
  have o2: "calls (fetchActivities_start 10 10 overlapping_dashboard)
       \<noteq> calls overlapping_dashboard"
    by (simp add: fetchActivities_start_def)
  then have ne: "fetchActivities_start 10 10 overlapping_dashboard \<noteq> overlapping_dashboard"
    by auto
  show ?thesis
    using o f ne by (simp add: o1 f1 fetchActivities_start_def)
qed

text \<open>
  The guard is passed at this state: \<open>hasMore\<close> holds and the loading flag is clear, and
  the last call issued is the one for the next page.
\<close>

theorem loadMore_during_pending_fetch_witness:
  "hasMore (pagination overlapping_dashboard)
   \<and> \<not> loading (activitiesState overlapping_dashboard)
   \<and> last (calls (loadMore_start overlapping_dashboard overlapping_dashboard))
       = CallGetActivities 10 10"
  using loadMore_during_pending_fetch by simp

subsection \<open>Mutations\<close>

text \<open>
  C4: when the API call of a create or of a delete rejects, the accumulated list is what
  it was before the mutation was attempted, the error of the activities state is set to
  the message of the rejection, and the only API call of the whole operation is the
  mutation itself: nothing is retried and no statistics are fetched. \<open>createActivity\<close>
  returns \<^verbatim>\<open>null\<close> and \<open>deleteActivity\<close> returns \<^verbatim>\<open>false\<close>.
\<close>

theorem failed_mutation_keeps_list:
  "createActivity d (Inl err) s
     = (None,
        s\<lparr>activitiesState := (activitiesState s)
            \<lparr>error := Some (error_message err
               ''Failed to create activity. Please try again.'')\<rparr>,
          calls := calls s @ [CallCreateActivity d]\<rparr>)
   \<and> deleteActivity i (Inl err) s
     = (False,
        s\<lparr>activitiesState := (activitiesState s)
            \<lparr>error := Some (error_message err
               ''Failed to delete activity. Please try again.'')\<rparr>,
          calls := calls s @ [CallDeleteActivity i]\<rparr>)
   \<and> data (activitiesState (snd (createActivity d (Inl err) s))) = data (activitiesState s)
   \<and> data (activitiesState (snd (deleteActivity i (Inl err) s))) = data (activitiesState s)
   \<and> error (activitiesState (snd (createActivity d (Inl err) s))) \<noteq> None
   \<and> error (activitiesState (snd (deleteActivity i (Inl err) s))) \<noteq> None
   \<and> calls (snd (createActivity_settle (Inl err) s)) = calls s
   \<and> calls (snd (deleteActivity_settle i (Inl err) s)) = calls s"
  by (simp add: createActivity_def createActivity_start_def createActivity_settle_def
      deleteActivity_def deleteActivity_start_def deleteActivity_settle_def)

text \<open>
  With the list [1, 2], a create that fails with a message and a
  delete that fails with a value that is no \<^verbatim>\<open>Error\<close>.
\<close>

theorem failed_mutation_keeps_list_witness:
  "fst (createActivity sample_create_data (Inl (JsError ''Network down''))
      (fetchActivities (Some 2) None (Inr [sample_activity 1, sample_activity 2])
         initial_dashboard))
     = None
   \<and> data (activitiesState (snd
      (createActivity sample_create_data (Inl (JsError ''Network down''))
         (fetchActivities (Some 2) None (Inr [sample_activity 1, sample_activity 2])
            initial_dashboard))))
     = [sample_activity 1, sample_activity 2]
   \<and> error (activitiesState (snd
      (createActivity sample_create_data (Inl (JsError ''Network down''))
         (fetchActivities (Some 2) None (Inr [sample_activity 1, sample_activity 2])
            initial_dashboard))))
     = Some ''Network down''
   \<and> fst (deleteActivity 1 (Inl JsOther)
      (fetchActivities (Some 2) None (Inr [sample_activity 1, sample_activity 2])
         initial_dashboard))
     = False
   \<and> data (activitiesState (snd
      (deleteActivity 1 (Inl JsOther)
         (fetchActivities (Some 2) None (Inr [sample_activity 1, sample_activity 2])
            initial_dashboard))))
     = [sample_activity 1, sample_activity 2]
   \<and> calls (snd
      (deleteActivity 1 (Inl JsOther)
         (fetchActivities (Some 2) None (Inr [sample_activity 1, sample_activity 2])
            initial_dashboard)))
     = [CallGetActivities 2 0, CallDeleteActivity 1]"
proof -
  let ?s1 = "fetchActivities (Some 2) None (Inr [sample_activity 1, sample_activity 2])
               initial_dashboard"
  have s1: "calls ?s1 = [CallGetActivities 2 0]"
    "data (activitiesState ?s1) = [sample_activity 1, sample_activity 2]"
    by (simp_all add: fetchActivities_def fetchActivities_params_def fetchActivities_settle_def fetchActivities_start_def
        initial_dashboard_def Let_def)
  show ?thesis
    using s1 failed_mutation_keeps_list [where s = ?s1 and d = sample_create_data
        and err = "JsError ''Network down''" and i = 1]
      failed_mutation_keeps_list [where s = ?s1 and d = sample_create_data
        and err = JsOther and i = 1]
    by (simp add: error_message_def)
qed

text \<open>
  C5: when the API call of a create resolves with a record, that record is put in front
  of the accumulated list; when the API call of a delete resolves, the accumulated list
  keeps exactly the entries whose id differs from the deleted id, in their order. In
  both cases \<open>fetchStats()\<close> is started: the statistics call is issued after the
  mutation and the statistics are loading.
\<close>

theorem successful_mutation_updates_list:
  "fst (createActivity d (Inr a) s) = Some a
   \<and> data (activitiesState (snd (createActivity d (Inr a) s))) = a # data (activitiesState s)
   \<and> calls (snd (createActivity d (Inr a) s))
       = calls s @ [CallCreateActivity d, CallGetActivityStats None None]
   \<and> stats_loading (statsState (snd (createActivity d (Inr a) s)))
   \<and> fst (deleteActivity i (Inr u) s) = True
   \<and> data (activitiesState (snd (deleteActivity i (Inr u) s)))
       = filter (\<lambda>x. id_activity x \<noteq> i) (data (activitiesState s))
   \<and> i \<notin> id_activity ` set (data (activitiesState (snd (deleteActivity i (Inr u) s))))
   \<and> calls (snd (deleteActivity i (Inr u) s))
       = calls s @ [CallDeleteActivity i, CallGetActivityStats None None]
   \<and> stats_loading (statsState (snd (deleteActivity i (Inr u) s)))"
  by (auto simp add: createActivity_def createActivity_start_def createActivity_settle_def
      deleteActivity_def deleteActivity_start_def deleteActivity_settle_def
      fetchStats_start_def)

text \<open>
  In the list [1, 2, 1], a delete of id 1 removes both entries
  with that id, and a create puts record 3 in front.
\<close>

theorem successful_mutation_updates_list_witness:
  "data (activitiesState (snd (deleteActivity 1 (Inr ())
      (fetchActivities (Some 3) None
         (Inr [sample_activity 1, sample_activity 2, sample_activity 1]) initial_dashboard))))
     = [sample_activity 2]
   \<and> data (activitiesState (snd (createActivity sample_create_data (Inr (sample_activity 3))
      (fetchActivities (Some 3) None
         (Inr [sample_activity 1, sample_activity 2, sample_activity 1]) initial_dashboard))))
     = [sample_activity 3, sample_activity 1, sample_activity 2, sample_activity 1]
   \<and> calls (snd (deleteActivity 1 (Inr ())
      (fetchActivities (Some 3) None
         (Inr [sample_activity 1, sample_activity 2, sample_activity 1]) initial_dashboard)))
     = [CallGetActivities 3 0, CallDeleteActivity 1, CallGetActivityStats None None]"
proof -
  let ?s = "fetchActivities (Some 3) None
         (Inr [sample_activity 1, sample_activity 2, sample_activity 1]) initial_dashboard"
  have s: "calls ?s = [CallGetActivities 3 0]"
    "data (activitiesState ?s) = [sample_activity 1, sample_activity 2, sample_activity 1]"
    by (simp_all add: fetchActivities_def fetchActivities_params_def fetchActivities_settle_def fetchActivities_start_def
        initial_dashboard_def Let_def)
  have ids: "id_activity (sample_activity k) = k" for k
    by (simp add: sample_activity_def)
  show ?thesis
    using s successful_mutation_updates_list [where s = ?s and i = 1 and u = "()"
        and d = sample_create_data and a = "sample_activity 3"]
    by (simp add: ids)
qed

text \<open>
  C10: a create or a delete, whether its API call resolves or rejects, leaves the
  pagination state \<open>limit\<close>, \<open>offset\<close>, \<open>hasMore\<close> as it was. A create that succeeds makes
  the accumulated list one longer, and a delete that succeeds makes it shorter when the
  list holds the deleted id.
\<close>

theorem mutations_keep_pagination:
  "pagination (snd (createActivity d res s)) = pagination s
   \<and> pagination (snd (deleteActivity i resD s)) = pagination s
   \<and> length (data (activitiesState (snd (createActivity d (Inr a) s))))
       = Suc (length (data (activitiesState s)))
   \<and> (i \<in> id_activity ` set (data (activitiesState s)) \<longrightarrow>
        length (data (activitiesState (snd (deleteActivity i (Inr u) s))))
          < length (data (activitiesState s)))"
proof -
  have c: "pagination (snd (createActivity d res s)) = pagination s"
    by (cases res)
      (simp_all add: createActivity_def createActivity_start_def createActivity_settle_def
        fetchStats_start_def)
  have del: "pagination (snd (deleteActivity i resD s)) = pagination s"
    by (cases resD)
      (simp_all add: deleteActivity_def deleteActivity_start_def deleteActivity_settle_def
        fetchStats_start_def)
  have len: "length (data (activitiesState (snd (createActivity d (Inr a) s))))
       = Suc (length (data (activitiesState s)))"
    by (simp add: createActivity_def createActivity_start_def createActivity_settle_def
        fetchStats_start_def)
  have shorter: "length (data (activitiesState (snd (deleteActivity i (Inr u) s))))
          < length (data (activitiesState s))"
    if "i \<in> id_activity ` set (data (activitiesState s))"
  proof -
    from that obtain x where "x \<in> set (data (activitiesState s))" "id_activity x = i"
      by auto
    then have "length (filter (\<lambda>y. id_activity y \<noteq> i) (data (activitiesState s)))
        < length (data (activitiesState s))"
      by (intro length_filter_less) simp_all
    then show ?thesis
      by (simp add: deleteActivity_def deleteActivity_start_def deleteActivity_settle_def
          fetchStats_start_def)
  qed
  from c del len shorter show ?thesis by blast
qed

text \<open>
  With the first page [1, 2] loaded at limit 2, a create and a delete of record 1 leave
  the pagination at limit 2, offset 0, \<open>hasMore\<close> true, while the list gets 3 and 1
  entries.
\<close>

theorem mutations_keep_pagination_witness:
  "1 \<in> id_activity ` set (data (activitiesState
      (fetchActivities (Some 2) None (Inr [sample_activity 1, sample_activity 2])
         initial_dashboard)))
   \<and> pagination (snd (createActivity sample_create_data (Inr (sample_activity 3))
        (fetchActivities (Some 2) None (Inr [sample_activity 1, sample_activity 2])
           initial_dashboard)))
       = \<lparr>limit = 2, offset = 0, hasMore = True\<rparr>
   \<and> pagination (snd (deleteActivity 1 (Inr ())
        (fetchActivities (Some 2) None (Inr [sample_activity 1, sample_activity 2])
           initial_dashboard)))
       = \<lparr>limit = 2, offset = 0, hasMore = True\<rparr>
   \<and> length (data (activitiesState (snd (deleteActivity 1 (Inr ())
        (fetchActivities (Some 2) None (Inr [sample_activity 1, sample_activity 2])
           initial_dashboard)))))
       < 2"
proof -
  let ?s1 = "fetchActivities (Some 2) None (Inr [sample_activity 1, sample_activity 2])
               initial_dashboard"
  have s1: "pagination ?s1 = \<lparr>limit = 2, offset = 0, hasMore = True\<rparr>"
    "data (activitiesState ?s1) = [sample_activity 1, sample_activity 2]"
    by (simp_all add: fetchActivities_def fetchActivities_params_def fetchActivities_settle_def fetchActivities_start_def
        initial_dashboard_def Let_def)
  have m: "1 \<in> id_activity ` set (data (activitiesState ?s1))"
    unfolding s1 by (simp add: sample_activity_def)
  show ?thesis
    using m s1 mutations_keep_pagination [where s = ?s1 and i = 1 and u = "()"
        and a = "sample_activity 3" and d = sample_create_data and res = "Inr (sample_activity 3)" and resD = "Inr ()"]
    by simp
qed

subsection \<open>Refresh\<close>

text \<open>
  C8: \<open>refreshData\<close> sets the pagination offset to 0, keeping the limit and \<open>hasMore\<close>,
  and starts both fetches before either of them settles: the call for the activities at
  offset 0 with the current limit, then the call for the statistics, with both loading
  flags set. No further call is made. The two calls may settle in either order, and the
  resulting state is the same. When the activities call resolves, its page is the whole
  list and the pagination has offset 0 and the limit that was current.
\<close>

theorem refreshData_resets_and_refetches:
  "pagination (refreshData_start s) = (pagination s)\<lparr>offset := 0\<rparr>
   \<and> calls (refreshData_start s)
       = calls s @ [CallGetActivities (limit (pagination s)) 0,
                    CallGetActivityStats None None]
   \<and> loading (activitiesState (refreshData_start s))
   \<and> stats_loading (statsState (refreshData_start s))
   \<and> calls (refreshData resA resS s) = calls (refreshData_start s)
   \<and> refreshData_stats_first resA resS s = refreshData resA resS s
   \<and> data (activitiesState (refreshData (Inr page) resS s)) = page
   \<and> pagination (refreshData (Inr page) resS s)
       = \<lparr>limit = limit (pagination s), offset = 0,
          hasMore = (int (length page) = limit (pagination s))\<rparr>
   \<and> offset (pagination (refreshData resA resS s)) = 0
   \<and> stats_data (statsState (refreshData resA (Inr st) s)) = Some st"
  by (cases resA; cases resS)
    (simp_all add: refreshData_def refreshData_stats_first_def refreshData_start_def
      fetchActivities_start_def fetchActivities_settle_def
      fetchStats_start_def fetchStats_settle_def)

text \<open>
  After the pages [1, 2] and [3] at limit 2 the offset is 2; a
  refresh whose activities call resolves with [1, 2] and whose statistics call fails
  leaves offset 0, limit 2, \<open>hasMore\<close> true and the list [1, 2].
\<close>

theorem refreshData_resets_and_refetches_witness:
  "offset (pagination (fetchActivities (Some 2) (Some 2) (Inr [sample_activity 3])
      (fetchActivities (Some 2) None (Inr [sample_activity 1, sample_activity 2])
         initial_dashboard)))
     = 2
   \<and> pagination (refreshData (Inr [sample_activity 1, sample_activity 2]) (Inl JsOther)
      (fetchActivities (Some 2) (Some 2) (Inr [sample_activity 3])
         (fetchActivities (Some 2) None (Inr [sample_activity 1, sample_activity 2])
            initial_dashboard)))
     = \<lparr>limit = 2, offset = 0, hasMore = True\<rparr>
   \<and> data (activitiesState
      (refreshData (Inr [sample_activity 1, sample_activity 2]) (Inl JsOther)
         (fetchActivities (Some 2) (Some 2) (Inr [sample_activity 3])
            (fetchActivities (Some 2) None (Inr [sample_activity 1, sample_activity 2])
               initial_dashboard))))
     = [sample_activity 1, sample_activity 2]
   \<and> calls (refreshData_start
      (fetchActivities (Some 2) (Some 2) (Inr [sample_activity 3])
         (fetchActivities (Some 2) None (Inr [sample_activity 1, sample_activity 2])
            initial_dashboard)))
     = [CallGetActivities 2 0, CallGetActivities 2 2, CallGetActivities 2 0,
        CallGetActivityStats None None]"
proof -
  let ?s2 = "fetchActivities (Some 2) (Some 2) (Inr [sample_activity 3])
      (fetchActivities (Some 2) None (Inr [sample_activity 1, sample_activity 2])
         initial_dashboard)"
  have s2: "pagination ?s2 = \<lparr>limit = 2, offset = 2, hasMore = False\<rparr>"
    "calls ?s2 = [CallGetActivities 2 0, CallGetActivities 2 2]"
    by (simp_all add: fetchActivities_def fetchActivities_params_def fetchActivities_settle_def
        fetchActivities_start_def initial_dashboard_def Let_def)
  show ?thesis
    using s2 refreshData_resets_and_refetches [where s = ?s2
        and page = "[sample_activity 1, sample_activity 2]" and resS = "Inl JsOther"
        and resA = "Inr [sample_activity 1, sample_activity 2]"
        and st = "\<lparr>total_count = 0, by_type = [], by_date = [],
                  most_common_action = None\<rparr>"]
    by simp
qed

subsection \<open>The API functions\<close>

lemma handleAuthenticatedResponse_requests:
  "requests (snd (handleAuthenticatedResponse r b)) = requests b"
  by (simp add: handleAuthenticatedResponse_def Let_def split: sum.splits)

lemma handleAuthenticatedResponse_401:
  "status r = 401 \<Longrightarrow>
     handleAuthenticatedResponse r b
       = (Inl (JsError ''Session expired. Please log in again.''),
          b\<lparr>localStorage := (localStorage b)(''token'' := None), href := ''/login''\<rparr>)"
  by (simp add: handleAuthenticatedResponse_def)

lemma number_toString_50: "number_toString 50 = ''50''"
  by (simp add: number_toString_def digit_char_def)

lemma number_toString_10: "number_toString 10 = ''10''"
  by (simp add: number_toString_def digit_char_def)

lemma number_toString_0: "number_toString 0 = ''0''"
  by (simp add: number_toString_def digit_char_def)

text \<open>
  C7: when the limit is left out, \<open>getActivities\<close> asks for \<^verbatim>\<open>limit=50\<close> (and for
  \<^verbatim>\<open>offset=0\<close> when the offset is left out too), provided a token is stored, without
  which it makes no request. The hook's \<open>fetchActivities\<close> with the limit left out calls
  \<open>getActivities\<close> with limit 10, and with offset 0 when the offset is left out too; so
  does the fetch on mount, the initial pagination has limit 10 and offset 0, and
  the request that \<open>getActivities\<close> makes for these arguments has \<^verbatim>\<open>limit=10\<close> and
  \<^verbatim>\<open>offset=0\<close>.
\<close>

theorem default_limits:
  assumes "getAuthToken b = Inr token"
  shows "requests (snd (getActivities fetch None off_arg b))
       = requests b @
         [\<lparr>http_method = ''GET'', path = ''/api/dashboard/activities'',
           query = [(''limit'', ''50''),
                    (''offset'', number_toString (case off_arg of None \<Rightarrow> 0 | Some x \<Rightarrow> x))],
           headers = [(''Authorization'', ''Bearer '' @ token)], body = None\<rparr>]
   \<and> query (last (requests (snd (getActivities fetch None None b))))
       = [(''limit'', ''50''), (''offset'', ''0'')]
   \<and> calls (fetchActivities None None res s) = calls s @ [CallGetActivities 10 0]
   \<and> calls (fetchActivities None (Some off) res s) = calls s @ [CallGetActivities 10 off]
   \<and> calls mount_start = [CallGetActivities 10 0, CallGetActivityStats None None]
   \<and> calls (mount res resS) = calls mount_start
   \<and> limit (pagination initial_dashboard) = 10
   \<and> offset (pagination initial_dashboard) = 0
   \<and> query (last (requests (snd (getActivities fetch (Some 10) (Some 0) b))))
       = [(''limit'', ''10''), (''offset'', ''0'')]"
proof -
  have api: "requests (snd (getActivities fetch lim_arg off_arg' b))
       = requests b @
         [\<lparr>http_method = ''GET'', path = ''/api/dashboard/activities'',
           query = [(''limit'', number_toString (case lim_arg of None \<Rightarrow> 50 | Some l \<Rightarrow> l)),
                    (''offset'', number_toString (case off_arg' of None \<Rightarrow> 0 | Some x \<Rightarrow> x))],
           headers = [(''Authorization'', ''Bearer '' @ token)], body = None\<rparr>]"
    for lim_arg off_arg'
    using assms
    by (simp add: getActivities_def DASHBOARD_API_URL_def Let_def
        handleAuthenticatedResponse_requests split: sum.splits)
  have hook: "calls (fetchActivities None off_arg' res s)
       = calls s @ [CallGetActivities 10 (case off_arg' of None \<Rightarrow> 0 | Some x \<Rightarrow> x)]"
    for off_arg'
    by (cases res)
      (simp_all add: fetchActivities_def fetchActivities_params_def fetchActivities_start_def fetchActivities_settle_def
        DEFAULT_LIMIT_def Let_def)
  have mnt0: "calls mount_start = [CallGetActivities 10 0, CallGetActivityStats None None]"
    by (simp add: mount_start_def fetchActivities_params_def fetchActivities_start_def
        fetchStats_start_def initial_dashboard_def DEFAULT_LIMIT_def)
  have mnt: "calls (mount res resS) = calls mount_start"
    by (cases res; cases resS)
      (simp_all add: mount_def fetchActivities_params_def fetchActivities_settle_def
        fetchStats_settle_def)
  have init: "limit (pagination initial_dashboard) = 10"
    "offset (pagination initial_dashboard) = 0"
    by (simp_all add: initial_dashboard_def DEFAULT_LIMIT_def)
  show ?thesis
    using api [of None off_arg] api [of None None] api [of "Some 10" "Some 0"]
      hook [of None] hook [of "Some off"] mnt0 mnt init
    by (simp add: number_toString_50 number_toString_10 number_toString_0)
qed

text \<open>With the token \<^verbatim>\<open>abc\<close> stored, whatever the network answers.\<close>

theorem default_limits_witness:
  "getAuthToken sample_browser = Inr ''abc''
   \<and> requests (snd (getActivities (\<lambda>_. Inl JsOther) None None sample_browser))
       = [\<lparr>http_method = ''GET'', path = ''/api/dashboard/activities'',
           query = [(''limit'', ''50''), (''offset'', ''0'')],
           headers = [(''Authorization'', ''Bearer abc'')], body = None\<rparr>]
   \<and> calls (fetchActivities None None (Inr []) initial_dashboard) = [CallGetActivities 10 0]"
proof -
  have t: "getAuthToken sample_browser = Inr ''abc''"
    by (simp add: getAuthToken_def sample_browser_def)
  have r: "requests sample_browser = []"
    by (simp add: sample_browser_def)
  have c: "calls initial_dashboard = []"
    by (simp add: initial_dashboard_def)
  show ?thesis
    using t r c default_limits [OF t, where fetch = "\<lambda>_. Inl JsOther" and off_arg = None
        and res = "Inr []" and s = initial_dashboard]
    by (simp add: number_toString_0)
qed

text \<open>
  C6: a response with status 401 makes \<open>handleAuthenticatedResponse\<close> remove the token
  from \<^verbatim>\<open>localStorage\<close>, set the location to \<^verbatim>\<open>/login\<close> and throw the session-expired
  error, whatever else the response holds. Each of the five authenticated API functions
  passes the response to its request through it: when a token is stored and the request
  the function made was answered with a response of status 401, the function rejects
  with the session-expired error (so it never resolves with data), the token is gone and
  the location is \<^verbatim>\<open>/login\<close>.
\<close>

theorem unauthorized_response_forces_logout:
  assumes "getAuthToken b = Inr token"
  shows "(status r = 401 \<longrightarrow>
       handleAuthenticatedResponse r b
         = (Inl (JsError ''Session expired. Please log in again.''),
            b\<lparr>localStorage := (localStorage b)(''token'' := None), href := ''/login''\<rparr>))
   \<and> (fst (handleAuthenticatedResponse r b) = Inr v \<longrightarrow> status r \<noteq> 401)
   \<and> (fetchC (last (requests (snd (apiCreateActivity fetchC d b)))) = Inr rC
        \<and> status rC = 401 \<longrightarrow>
        fst (apiCreateActivity fetchC d b)
          = Inl (JsError ''Session expired. Please log in again.'')
      \<and> localStorage (snd (apiCreateActivity fetchC d b)) ''token'' = None
      \<and> href (snd (apiCreateActivity fetchC d b)) = ''/login'')
   \<and> (fetchL (last (requests (snd (getActivities fetchL lim_arg off_arg b)))) = Inr rL
        \<and> status rL = 401 \<longrightarrow>
        fst (getActivities fetchL lim_arg off_arg b)
          = Inl (JsError ''Session expired. Please log in again.'')
      \<and> localStorage (snd (getActivities fetchL lim_arg off_arg b)) ''token'' = None
      \<and> href (snd (getActivities fetchL lim_arg off_arg b)) = ''/login'')
   \<and> (fetchG (last (requests (snd (getActivity fetchG i b)))) = Inr rG
        \<and> status rG = 401 \<longrightarrow>
        fst (getActivity fetchG i b)
          = Inl (JsError ''Session expired. Please log in again.'')
      \<and> localStorage (snd (getActivity fetchG i b)) ''token'' = None
      \<and> href (snd (getActivity fetchG i b)) = ''/login'')
   \<and> (fetchS (last (requests (snd (getActivityStats fetchS startDate endDate b)))) = Inr rS
        \<and> status rS = 401 \<longrightarrow>
        fst (getActivityStats fetchS startDate endDate b)
          = Inl (JsError ''Session expired. Please log in again.'')
      \<and> localStorage (snd (getActivityStats fetchS startDate endDate b)) ''token'' = None
      \<and> href (snd (getActivityStats fetchS startDate endDate b)) = ''/login'')
   \<and> (fetchD (last (requests (snd (apiDeleteActivity fetchD j b)))) = Inr rD
        \<and> status rD = 401 \<longrightarrow>
        fst (apiDeleteActivity fetchD j b)
          = Inl (JsError ''Session expired. Please log in again.'')
      \<and> localStorage (snd (apiDeleteActivity fetchD j b)) ''token'' = None
      \<and> href (snd (apiDeleteActivity fetchD j b)) = ''/login'')"
proof -
  have h: "status r = 401 \<longrightarrow>
       handleAuthenticatedResponse r b
         = (Inl (JsError ''Session expired. Please log in again.''),
            b\<lparr>localStorage := (localStorage b)(''token'' := None), href := ''/login''\<rparr>)"
    by (simp add: handleAuthenticatedResponse_401)
  have n: "fst (handleAuthenticatedResponse r b) = Inr v \<longrightarrow> status r \<noteq> 401"
    by (auto simp add: handleAuthenticatedResponse_401)
  have c: "fst (apiCreateActivity fetchC d b)
          = Inl (JsError ''Session expired. Please log in again.'')
      \<and> localStorage (snd (apiCreateActivity fetchC d b)) ''token'' = None
      \<and> href (snd (apiCreateActivity fetchC d b)) = ''/login''"
    if "fetchC (last (requests (snd (apiCreateActivity fetchC d b)))) = Inr rC"
      and "status rC = 401"
    using that assms
    by (auto simp add: apiCreateActivity_def Let_def handleAuthenticatedResponse_requests
        handleAuthenticatedResponse_401 split: sum.splits)
  have l: "fst (getActivities fetchL lim_arg off_arg b)
          = Inl (JsError ''Session expired. Please log in again.'')
      \<and> localStorage (snd (getActivities fetchL lim_arg off_arg b)) ''token'' = None
      \<and> href (snd (getActivities fetchL lim_arg off_arg b)) = ''/login''"
    if "fetchL (last (requests (snd (getActivities fetchL lim_arg off_arg b)))) = Inr rL"
      and "status rL = 401"
    using that assms
    by (auto simp add: getActivities_def Let_def handleAuthenticatedResponse_requests
        handleAuthenticatedResponse_401 split: sum.splits)
  have g: "fst (getActivity fetchG i b)
          = Inl (JsError ''Session expired. Please log in again.'')
      \<and> localStorage (snd (getActivity fetchG i b)) ''token'' = None
      \<and> href (snd (getActivity fetchG i b)) = ''/login''"
    if "fetchG (last (requests (snd (getActivity fetchG i b)))) = Inr rG"
      and "status rG = 401"
    using that assms
    by (auto simp add: getActivity_def Let_def handleAuthenticatedResponse_requests
        handleAuthenticatedResponse_401 split: sum.splits)
  have s: "fst (getActivityStats fetchS startDate endDate b)
          = Inl (JsError ''Session expired. Please log in again.'')
      \<and> localStorage (snd (getActivityStats fetchS startDate endDate b)) ''token'' = None
      \<and> href (snd (getActivityStats fetchS startDate endDate b)) = ''/login''"
    if "fetchS (last (requests (snd (getActivityStats fetchS startDate endDate b)))) = Inr rS"
      and "status rS = 401"
    using that assms
    by (auto simp add: getActivityStats_def Let_def handleAuthenticatedResponse_requests
        handleAuthenticatedResponse_401 split: sum.splits)
  have dl: "fst (apiDeleteActivity fetchD j b)
          = Inl (JsError ''Session expired. Please log in again.'')
      \<and> localStorage (snd (apiDeleteActivity fetchD j b)) ''token'' = None
      \<and> href (snd (apiDeleteActivity fetchD j b)) = ''/login''"
    if "fetchD (last (requests (snd (apiDeleteActivity fetchD j b)))) = Inr rD"
      and "status rD = 401"
    using that assms
    by (auto simp add: apiDeleteActivity_def Let_def handleAuthenticatedResponse_requests
        handleAuthenticatedResponse_401 split: sum.splits)
  from h n c l g s dl show ?thesis by blast
qed

text \<open>
  With the token \<^verbatim>\<open>abc\<close> stored and a network that answers every request with status
  401, each of the five functions rejects with the session-expired error and leaves no
  token and the location \<^verbatim>\<open>/login\<close>.
\<close>

theorem unauthorized_response_forces_logout_witness:
  "getAuthToken sample_browser = Inr ''abc''
   \<and> status (unauthorized :: activity list response) = 401
   \<and> fst (getActivities (\<lambda>_. Inr unauthorized) None None sample_browser)
       = Inl (JsError ''Session expired. Please log in again.'')
   \<and> localStorage (snd (getActivities (\<lambda>_. Inr unauthorized) None None sample_browser))
        ''token'' = None
   \<and> href (snd (getActivities (\<lambda>_. Inr unauthorized) None None sample_browser)) = ''/login''
   \<and> fst (apiCreateActivity (\<lambda>_. Inr unauthorized) sample_create_data sample_browser)
       = Inl (JsError ''Session expired. Please log in again.'')
   \<and> fst (getActivity (\<lambda>_. Inr unauthorized) 7 sample_browser)
       = Inl (JsError ''Session expired. Please log in again.'')
   \<and> fst (getActivityStats (\<lambda>_. Inr unauthorized) None None sample_browser)
       = Inl (JsError ''Session expired. Please log in again.'')
   \<and> fst (apiDeleteActivity (\<lambda>_. Inr unauthorized) 7 sample_browser)
       = Inl (JsError ''Session expired. Please log in again.'')
   \<and> localStorage (snd (apiDeleteActivity (\<lambda>_. Inr unauthorized) 7 sample_browser))
        ''token'' = None
   \<and> href (snd (apiDeleteActivity (\<lambda>_. Inr unauthorized) 7 sample_browser)) = ''/login''
   \<and> fst (handleAuthenticatedResponse (unauthorized :: activity response) sample_browser)
       = Inl (JsError ''Session expired. Please log in again.'')"
proof -
  have t: "getAuthToken sample_browser = Inr ''abc''"
    by (simp add: getAuthToken_def sample_browser_def)
  show ?thesis
    using t unauthorized_response_forces_logout [OF t,
        where r = "unauthorized :: activity response" and v = "Some (sample_activity 1)"
        and fetchC = "\<lambda>_. Inr unauthorized" and rC = unauthorized and d = sample_create_data
        and fetchL = "\<lambda>_. Inr unauthorized" and rL = unauthorized
        and lim_arg = None and off_arg = None
        and fetchG = "\<lambda>_. Inr unauthorized" and rG = unauthorized and i = 7
        and fetchS = "\<lambda>_. Inr unauthorized" and rS = unauthorized
        and startDate = None and endDate = None
        and fetchD = "\<lambda>_. Inr unauthorized" and rD = unauthorized and j = 7]
    by (simp add: unauthorized_def)
qed

end
